theory Spec2Isabelle
  imports Main
begin

section \<open>Values and errors of the host language\<close>

text \<open>
  \<^verbatim>\<open>loadFixture\<close> receives \<^verbatim>\<open>args: any[]\<close>. The values below are the JavaScript
  values the development covers: the primitives, functions, arrays and plain objects
  (own enumerable string-keyed properties, in enumeration order). A number is one with an
  integer value (of magnitude below \<open>2^53\<close>, where the decimal form is exact) or
  \<^verbatim>\<open>NaN\<close>. \<open>JCycle\<close> is a reference back to an array or object that encloses it:
  the one place where the traversal of a circular structure differs from the traversal of
  a tree. Values do not change: a caller that mutates an argument array after it has
  passed it is outside the model.
\<close>

datatype jsval =
    JUndefined
  | JNull
  | JBool bool
  | JNum int
  | JNaN
  | JStr string
  | JBigInt int
  | JFunction string
  | JArray "jsval list"
  | JObject "(string \<times> jsval) list"
  | JCycle

text \<open>
  What an awaited promise can reject with: the three error classes of
  \<^verbatim>\<open>./errors\<close> that \<^verbatim>\<open>loadFixture.ts\<close> names, the \<^verbatim>\<open>TypeError\<close> of
  \<^verbatim>\<open>JSON.stringify\<close>, and any other thrown value.
\<close>

datatype error =
    FixtureAnonymousFunctionError
  | FixtureSnapshotError error
  | InvalidSnapshotError
  | TypeError
  | Thrown string

section \<open>JSON.stringify\<close>

definition hexDigit :: "nat \<Rightarrow> char" where
  "hexDigit n = ''0123456789abcdef'' ! (n mod 16)"


text \<open>One code unit inside a quoted JSON string (QuoteJSONString of ECMA-262).\<close>

definition quoteChar :: "char \<Rightarrow> string" where
  "quoteChar c =
     (if c = CHR 0x22 then [CHR 0x5C, CHR 0x22]
      else if c = CHR 0x5C then [CHR 0x5C, CHR 0x5C]
      else if c = CHR 0x08 then [CHR 0x5C, CHR ''b'']
      else if c = CHR 0x09 then [CHR 0x5C, CHR ''t'']
      else if c = CHR 0x0A then [CHR 0x5C, CHR ''n'']
      else if c = CHR 0x0C then [CHR 0x5C, CHR ''f'']
      else if c = CHR 0x0D then [CHR 0x5C, CHR ''r'']
      else if (of_char c :: nat) < 32 then
        [CHR 0x5C, CHR ''u'', CHR ''0'', CHR ''0'',
         hexDigit ((of_char c :: nat) div 16), hexDigit (of_char c :: nat)]
      else [c])"

definition quoteJSONString :: "string \<Rightarrow> string" where
  "quoteJSONString s = CHR 0x22 # concat (map quoteChar s) @ [CHR 0x22]"

fun showNat :: "nat \<Rightarrow> string" where
  "showNat n = (if n < 10 then [hexDigit n] else showNat (n div 10) @ [hexDigit (n mod 10)])"

declare showNat.simps [simp del]

definition numberToString :: "int \<Rightarrow> string" where
  "numberToString i = (if i < 0 then CHR ''-'' # showNat (nat (- i)) else showNat (nat i))"

fun joinComma :: "string list \<Rightarrow> string" where
  "joinComma [] = []"
| "joinComma [s] = s"
| "joinComma (s # t # ss) = s @ CHR '','' # joinComma (t # ss)"

text \<open>
  \<open>serializeJSONProperty v\<close> is \<open>Inl TypeError\<close> where \<^verbatim>\<open>JSON.stringify\<close> throws (a
  BigInt, a circular structure), \<open>Inr None\<close> where it yields \<^verbatim>\<open>undefined\<close>
  (\<^verbatim>\<open>undefined\<close>, a function) and \<open>Inr (Some text)\<close> otherwise. An array element
  without a text is written \<^verbatim>\<open>null\<close>; an object property without a text is left out.
\<close>

fun serializeJSONProperty :: "jsval \<Rightarrow> error + string option"
  and serializeJSONArray :: "jsval list \<Rightarrow> error + string list"
  and serializeJSONObject :: "(string \<times> jsval) list \<Rightarrow> error + string list"
where
  "serializeJSONProperty JUndefined = Inr None"
| "serializeJSONProperty JNull = Inr (Some ''null'')"
| "serializeJSONProperty (JBool b) = Inr (Some (if b then ''true'' else ''false''))"
| "serializeJSONProperty (JNum i) = Inr (Some (numberToString i))"
| "serializeJSONProperty JNaN = Inr (Some ''null'')"
| "serializeJSONProperty (JStr s) = Inr (Some (quoteJSONString s))"
| "serializeJSONProperty (JBigInt i) = Inl TypeError"
| "serializeJSONProperty (JFunction f) = Inr None"
| "serializeJSONProperty (JArray vs) =
     (case serializeJSONArray vs of
        Inl e \<Rightarrow> Inl e
      | Inr ts \<Rightarrow> Inr (Some (CHR ''['' # joinComma ts @ [CHR '']''])))"
| "serializeJSONProperty (JObject ps) =
     (case serializeJSONObject ps of
        Inl e \<Rightarrow> Inl e
      | Inr ts \<Rightarrow> Inr (Some (CHR ''{'' # joinComma ts @ [CHR ''}''])))"
| "serializeJSONProperty JCycle = Inl TypeError"
| "serializeJSONArray [] = Inr []"
| "serializeJSONArray (v # vs) =
     (case serializeJSONProperty v of
        Inl e \<Rightarrow> Inl e
      | Inr t \<Rightarrow>
          (case serializeJSONArray vs of
             Inl e \<Rightarrow> Inl e
           | Inr ts \<Rightarrow> Inr ((case t of None \<Rightarrow> ''null'' | Some s \<Rightarrow> s) # ts)))"
| "serializeJSONObject [] = Inr []"
| "serializeJSONObject (p # ps) =
     (case serializeJSONProperty (snd p) of
        Inl e \<Rightarrow> Inl e
      | Inr t \<Rightarrow>
          (case serializeJSONObject ps of
             Inl e \<Rightarrow> Inl e
           | Inr ts \<Rightarrow>
               Inr (case t of
                      None \<Rightarrow> ts
                    | Some s \<Rightarrow> (quoteJSONString (fst p) @ CHR '':'' # s) # ts)))"

definition JSON_stringify :: "jsval \<Rightarrow> error + string option" where
  "JSON_stringify v = serializeJSONProperty v"

section \<open>The fixture cache\<close>

text \<open>
  Modelled from the spec: \<^verbatim>\<open>SnapshotRestorer\<close> is declared in
  \<^verbatim>\<open>./helpers/takeSnapshot\<close>, which is not among the sources. The spec gives a restorer
  a numeric \<^verbatim>\<open>snapshotId\<close> and a \<^verbatim>\<open>restore(): Promise<void>\<close>. The id is an
  integer here, so \<^verbatim>\<open>Number(snapshotId)\<close> is the id itself. \<open>'w\<close> is the state of
  the network the restorer acts on; a promise that rejects with \<open>e\<close> is \<open>Inl e\<close>.
\<close>

record 'w SnapshotRestorer =
  snapshotId :: int
  restore :: "'w \<Rightarrow> (error + unit) \<times> 'w"

text \<open>
  \<^verbatim>\<open>type Fixture<T> = (...args: any[]) => Promise<T>\<close>: a function object, of which
  the code reads the \<^verbatim>\<open>name\<close> and which it calls. A fixture acts on the network; the
  cache is private to the module, and a fixture that itself calls \<^verbatim>\<open>loadFixture\<close> or
  \<^verbatim>\<open>clearSnapshots\<close> while it runs is outside this model.
\<close>

record ('w, 'd) Fixture =
  name :: string
  call :: "jsval list \<Rightarrow> 'w \<Rightarrow> (error + 'd) \<times> 'w"

text \<open>\<^verbatim>\<open>interface Snapshot<T>\<close>, lines 11-16.\<close>

record ('w, 'd) Snapshot =
  restorer :: "'w SnapshotRestorer"
  fixture :: "('w, 'd) Fixture"
  args :: "jsval list"
  data :: 'd

text \<open>
  The module-level \<^verbatim>\<open>let snapshots\<close> (line 18) together with the network that the
  awaited calls act on.
\<close>

record ('w, 'd) state =
  snapshots :: "('w, 'd) Snapshot list"
  network :: 'w

text \<open>
  \<^verbatim>\<open>Array.prototype.find\<close> with a callback that may throw: the first element the
  callback accepts, \<^verbatim>\<open>undefined\<close> (\<open>None\<close>) when there is none, and the callback's
  exception when it throws before that.
\<close>

fun find_first :: "('a \<Rightarrow> error + bool) \<Rightarrow> 'a list \<Rightarrow> error + 'a option" where
  "find_first p [] = Inr None"
| "find_first p (x # xs) =
     (case p x of
        Inl e \<Rightarrow> Inl e
      | Inr b \<Rightarrow> if b then Inr (Some x) else find_first p xs)"

text \<open>\<^verbatim>\<open>JSON.stringify([s.fixture.name, s.args])\<close>, lines 42 and 44.\<close>

definition cacheKeyOf :: "string \<Rightarrow> jsval list \<Rightarrow> error + string option" where
  "cacheKeyOf n as = JSON_stringify (JArray [JStr n, JArray as])"

text \<open>The callback of line 44.\<close>

definition matchesKey :: "string option \<Rightarrow> ('w, 'd) Snapshot \<Rightarrow> error + bool" where
  "matchesKey cacheKey s =
     (case cacheKeyOf (name (fixture s)) (args s) of
        Inl e \<Rightarrow> Inl e
      | Inr k \<Rightarrow> Inr (k = cacheKey))"

text \<open>
  The hit branch, lines 50-64: restore, then keep the records whose id is at most the
  restored one; an \<^verbatim>\<open>InvalidSnapshotError\<close> is wrapped, any other error is rethrown.
\<close>

definition loadFixture_hit ::
  "('w, 'd) Snapshot \<Rightarrow> ('w, 'd) state \<Rightarrow> (error + 'd) \<times> ('w, 'd) state" where
  "loadFixture_hit snapshot st =
     (case restore (restorer snapshot) (network st) of
        (Inl e, w) \<Rightarrow>
          (Inl (case e of InvalidSnapshotError \<Rightarrow> FixtureSnapshotError e | _ \<Rightarrow> e),
           st\<lparr>network := w\<rparr>)
      | (Inr u, w) \<Rightarrow>
          (Inr (data snapshot),
           \<lparr>snapshots =
              filter (\<lambda>s. snapshotId (restorer s) \<le> snapshotId (restorer snapshot))
                (snapshots st),
            network = w\<rparr>))"

text \<open>
  The miss branch, lines 66-76: call the fixture, take a snapshot, push the record.
  \<open>takeSnapshot\<close> is the function imported from \<^verbatim>\<open>./helpers/takeSnapshot\<close> (line 47),
  a parameter here.
\<close>

definition loadFixture_miss ::
  "('w \<Rightarrow> (error + 'w SnapshotRestorer) \<times> 'w) \<Rightarrow> ('w, 'd) Fixture \<Rightarrow> jsval list \<Rightarrow>
   ('w, 'd) state \<Rightarrow> (error + 'd) \<times> ('w, 'd) state" where
  "loadFixture_miss takeSnapshot fx as st =
     (case call fx as (network st) of
        (Inl e, w) \<Rightarrow> (Inl e, st\<lparr>network := w\<rparr>)
      | (Inr d, w) \<Rightarrow>
          (case takeSnapshot w of
             (Inl e, w') \<Rightarrow> (Inl e, st\<lparr>network := w'\<rparr>)
           | (Inr r, w') \<Rightarrow>
               (Inr d,
                \<lparr>snapshots =
                   snapshots st @ [\<lparr>restorer = r, fixture = fx, args = as, data = d\<rparr>],
                 network = w'\<rparr>)))"

text \<open>
  \<^verbatim>\<open>loadFixture\<close>, lines 34-78: the name check, the key, the lookup, then one of the
  two branches. The dynamic import of line 47 only binds \<^verbatim>\<open>takeSnapshot\<close>. The two
  copies of the file differ in their type parameters and in
  \<^verbatim>\<open>args.length > 0 ? await fixture(...args) : await fixture()\<close> against
  \<^verbatim>\<open>await fixture(...args)\<close>, which are the same call; an omitted \<^verbatim>\<open>args\<close> is \<open>[]\<close>.
\<close>

definition loadFixture ::
  "('w \<Rightarrow> (error + 'w SnapshotRestorer) \<times> 'w) \<Rightarrow> ('w, 'd) Fixture \<Rightarrow> jsval list \<Rightarrow>
   ('w, 'd) state \<Rightarrow> (error + 'd) \<times> ('w, 'd) state" where
  "loadFixture takeSnapshot fx as st =
     (if name fx = [] then (Inl FixtureAnonymousFunctionError, st)
      else
        (case cacheKeyOf (name fx) as of
           Inl e \<Rightarrow> (Inl e, st)
         | Inr cacheKey \<Rightarrow>
             (case find_first (matchesKey cacheKey) (snapshots st) of
                Inl e \<Rightarrow> (Inl e, st)
              | Inr (Some snapshot) \<Rightarrow> loadFixture_hit snapshot st
              | Inr None \<Rightarrow> loadFixture_miss takeSnapshot fx as st)))"

text \<open>\<^verbatim>\<open>clearSnapshots\<close>, lines 83-85.\<close>

definition clearSnapshots :: "('w, 'd) state \<Rightarrow> ('w, 'd) state" where
  "clearSnapshots st = st\<lparr>snapshots := []\<rparr>"

text \<open>
  What a test does with the module, one awaited step after the other: it calls
  \<open>loadFixture\<close>, it calls \<open>clearSnapshots\<close>, or it acts on the network itself. A
  session starts from the empty cache of line 18.
\<close>

datatype ('w, 'd) step =
    LoadFixture "'w \<Rightarrow> (error + 'w SnapshotRestorer) \<times> 'w" "('w, 'd) Fixture" "jsval list"
  | ClearSnapshots
  | Transact "'w \<Rightarrow> 'w"

fun perform :: "('w, 'd) state \<Rightarrow> ('w, 'd) step \<Rightarrow> ('w, 'd) state" where
  "perform st (LoadFixture takeSnapshot fx as) = snd (loadFixture takeSnapshot fx as st)"
| "perform st ClearSnapshots = clearSnapshots st"
| "perform st (Transact f) = st\<lparr>network := f (network st)\<rparr>"

definition session :: "'w \<Rightarrow> ('w, 'd) step list \<Rightarrow> ('w, 'd) state" where
  "session w steps = foldl perform \<lparr>snapshots = [], network = w\<rparr> steps"

section \<open>Predicates of the specification\<close>

text \<open>
  The pair the specification keys a record by: the fixture's identity (its name) and the
  serialized argument list.
\<close>

definition keyPair :: "('w, 'd) Snapshot \<Rightarrow> string \<times> (error + string option)" where
  "keyPair s = (name (fixture s), JSON_stringify (JArray (args s)))"

definition atMostOnePerKey :: "('w, 'd) Snapshot list \<Rightarrow> bool" where
  "atMostOnePerKey c = distinct (map keyPair c)"

text \<open>
  What holds of every record that \<open>loadFixture\<close> pushes: the fixture is named and the
  key has a text.
\<close>

definition keyed :: "('w, 'd) Snapshot \<Rightarrow> bool" where
  "keyed s = (name (fixture s) \<noteq> [] \<and> \<not> isl (cacheKeyOf (name (fixture s)) (args s)))"

definition wellFormed :: "('w, 'd) Snapshot list \<Rightarrow> bool" where
  "wellFormed c = (atMostOnePerKey c \<and> list_all keyed c)"

text \<open>
  The values \<^verbatim>\<open>JSON.stringify\<close> throws on: a BigInt or a reference cycle, at any
  depth of arrays and objects.
\<close>

fun throwsInJSON :: "jsval \<Rightarrow> bool" where
  "throwsInJSON (JBigInt i) = True"
| "throwsInJSON JCycle = True"
| "throwsInJSON (JArray vs) = list_ex throwsInJSON vs"
| "throwsInJSON (JObject ps) = list_ex (\<lambda>p. throwsInJSON (snd p)) ps"
| "throwsInJSON v = False"

section \<open>A recording network for the examples\<close>

text \<open>
  A network that is the log of what was done to it: the fixtures that ran, the snapshots
  taken and the snapshots reverted to. A snapshot's id is the length of the log when it
  was taken.
\<close>

datatype event = Ran string "jsval list" | Snap int | Reverted int

definition recordingRestorer :: "int \<Rightarrow> event list SnapshotRestorer" where
  "recordingRestorer i = \<lparr>snapshotId = i, restore = (\<lambda>w. (Inr (), w @ [Reverted i]))\<rparr>"

definition recordingTakeSnapshot ::
  "event list \<Rightarrow> (error + event list SnapshotRestorer) \<times> event list" where
  "recordingTakeSnapshot w =
     (Inr (recordingRestorer (int (length w))), w @ [Snap (int (length w))])"

text \<open>A restorer whose snapshot the node no longer has, and one that fails otherwise.\<close>

definition staleRestorer :: "int \<Rightarrow> event list SnapshotRestorer" where
  "staleRestorer i = \<lparr>snapshotId = i, restore = (\<lambda>w. (Inl InvalidSnapshotError, w))\<rparr>"

definition brokenRestorer :: "int \<Rightarrow> event list SnapshotRestorer" where
  "brokenRestorer i = \<lparr>snapshotId = i, restore = (\<lambda>w. (Inl (Thrown ''timeout''), w))\<rparr>"

text \<open>\<^verbatim>\<open>async function deploy(...args) { return args; }\<close>, and the same body without a name.\<close>

definition deploy :: "(event list, jsval) Fixture" where
  "deploy = \<lparr>name = ''deploy'', call = (\<lambda>as w. (Inr (JArray as), w @ [Ran ''deploy'' as]))\<rparr>"

definition anonymous :: "(event list, jsval) Fixture" where
  "anonymous = \<lparr>name = [], call = call deploy\<rparr>"

definition emptyState :: "(event list, jsval) state" where
  "emptyState = \<lparr>snapshots = [], network = []\<rparr>"

text \<open>
  The states of the specification's example: after \<^verbatim>\<open>loadFixture(deploy, [100])\<close>, and
  after \<^verbatim>\<open>loadFixture(deploy, [200])\<close> as well.
\<close>

definition record100 :: "(event list, jsval) Snapshot" where
  "record100 =
     \<lparr>restorer = recordingRestorer 1, fixture = deploy, args = [JNum 100],
      data = JArray [JNum 100]\<rparr>"


definition loaded100 :: "(event list, jsval) state" where
  "loaded100 = \<lparr>snapshots = [record100], network = [Ran ''deploy'' [JNum 100], Snap 1]\<rparr>"


text \<open>A cache whose only record can no longer be restored.\<close>

definition staleState :: "(event list, jsval) state" where
  "staleState =
     \<lparr>snapshots = [\<lparr>restorer = staleRestorer 1, fixture = deploy, args = [], data = JArray []\<rparr>],
      network = [Ran ''deploy'' [], Snap 1]\<rparr>"

definition brokenState :: "(event list, jsval) state" where
  "brokenState =
     \<lparr>snapshots = [\<lparr>restorer = brokenRestorer 1, fixture = deploy, args = [], data = JArray []\<rparr>],
      network = [Ran ''deploy'' [], Snap 1]\<rparr>"

section \<open>The cache key is injective\<close>











lemma serializeJSONProperty_JArray:
  "serializeJSONProperty (JArray vs) = Inr t \<Longrightarrow> \<exists>a. t = Some a"
  by (auto split: sum.splits)

lemma cacheKeyOf_eq:
  "cacheKeyOf n as =
     (case JSON_stringify (JArray as) of
        Inl e \<Rightarrow> Inl e
      | Inr t \<Rightarrow> Inr (Some (CHR ''['' # (quoteJSONString n @ CHR '','' # the t) @ [CHR '']''])))"
  by (auto simp: cacheKeyOf_def JSON_stringify_def split: sum.splits option.splits)


lemma cacheKeyOf_cong:
  "JSON_stringify (JArray as) = JSON_stringify (JArray as') \<Longrightarrow> cacheKeyOf n as = cacheKeyOf n as'"
  by (simp add: cacheKeyOf_eq)

section \<open>Lookup and the two branches\<close>

lemma find_first_None_iff:
  "find_first p xs = Inr None \<longleftrightarrow> (\<forall>x\<in>set xs. p x = Inr False)"
  by (induction xs) (auto split: sum.splits)



lemma loadFixture_on_miss:
  assumes "name fx \<noteq> []" "cacheKeyOf (name fx) as = Inr k"
    "find_first (matchesKey k) (snapshots st) = Inr None"
  shows "loadFixture takeSnapshot fx as st = loadFixture_miss takeSnapshot fx as st"
  using assms by (simp add: loadFixture_def)

lemma loadFixture_on_hit:
  assumes "name fx \<noteq> []" "cacheKeyOf (name fx) as = Inr k"
    "find_first (matchesKey k) (snapshots st) = Inr (Some snapshot)"
  shows "loadFixture takeSnapshot fx as st = loadFixture_hit snapshot st"
  using assms by (simp add: loadFixture_def)



lemma keyPair_eq_key_eq:
  "keyPair s = keyPair s' \<Longrightarrow>
   cacheKeyOf (name (fixture s)) (args s) = cacheKeyOf (name (fixture s')) (args s')"
  by (simp add: keyPair_def cacheKeyOf_eq)



section \<open>What JSON.stringify throws on\<close>

lemma serialize_throws:
  "(throwsInJSON v \<and> serializeJSONProperty v = Inl TypeError) \<or>
   (\<not> throwsInJSON v \<and> (\<exists>t. serializeJSONProperty v = Inr t))"
  "(list_ex throwsInJSON vs \<and> serializeJSONArray vs = Inl TypeError) \<or>
   (\<not> list_ex throwsInJSON vs \<and> (\<exists>ts. serializeJSONArray vs = Inr ts))"
  "(list_ex (\<lambda>p. throwsInJSON (snd p)) ps \<and> serializeJSONObject ps = Inl TypeError) \<or>
   (\<not> list_ex (\<lambda>p. throwsInJSON (snd p)) ps \<and> (\<exists>ts. serializeJSONObject ps = Inr ts))"
proof (induction v and vs and ps
      rule: serializeJSONProperty_serializeJSONArray_serializeJSONObject.induct)
  case (9 vs)
  then show ?case by auto
next
  case (10 ps)
  then show ?case by auto
next
  case (13 v vs)
  then show ?case by auto
next
  case (15 p ps)
  then show ?case by auto
qed simp_all

lemma cacheKeyOf_throws:
  "(cacheKeyOf n as = Inl e) = (e = TypeError \<and> list_ex throwsInJSON as)"
  using serialize_throws(2) [of as]
  by (auto simp: cacheKeyOf_eq JSON_stringify_def split: sum.splits)

text \<open>A value without a text is written as \<^verbatim>\<open>null\<close> inside an array.\<close>

lemma serializeJSONArray_as_null:
  "serializeJSONProperty v = Inr None \<Longrightarrow>
   serializeJSONArray (xs @ v # ys) = serializeJSONArray (xs @ JNull # ys)"
  by (induction xs) (simp_all split: sum.splits)

lemma cacheKeyOf_as_null:
  "serializeJSONProperty v = Inr None \<Longrightarrow>
   cacheKeyOf n (xs @ v # ys) = cacheKeyOf n (xs @ JNull # ys)"
  by (simp add: cacheKeyOf_def JSON_stringify_def serializeJSONArray_as_null)

section \<open>Invariants of the cache\<close>

lemma atMostOnePerKey_filter: "atMostOnePerKey c \<Longrightarrow> atMostOnePerKey (filter P c)"
  by (simp add: atMostOnePerKey_def distinct_map_filter)

lemma atMostOnePerKey_snoc:
  assumes "atMostOnePerKey c" "cacheKeyOf (name fx) as = Inr k"
    "find_first (matchesKey k) c = Inr None"
  shows "atMostOnePerKey (c @ [\<lparr>restorer = r, fixture = fx, args = as, data = d\<rparr>])"
proof -
  define new where "new = \<lparr>restorer = r, fixture = fx, args = as, data = d\<rparr>"
  have "keyPair s \<noteq> keyPair new" if "s \<in> set c" for s
  proof
    assume "keyPair s = keyPair new"
    then have "cacheKeyOf (name (fixture s)) (args s) = Inr k"
      using keyPair_eq_key_eq [of s new] assms(2) by (simp add: new_def)
    then have "matchesKey k s = Inr True" by (simp add: matchesKey_def)
    moreover have "matchesKey k s = Inr False"
      using assms(3) that by (simp add: find_first_None_iff)
    ultimately show False by simp
  qed
  then have "keyPair new \<notin> set (map keyPair c)" by force
  with assms(1) show ?thesis by (simp add: atMostOnePerKey_def new_def)
qed

lemma snapshots_after_loadFixture:
  assumes "P (snapshots st)"
    and "\<And>Q. P (filter Q (snapshots st))"
    and "\<And>k r d. name fx \<noteq> [] \<Longrightarrow> cacheKeyOf (name fx) as = Inr k \<Longrightarrow>
           find_first (matchesKey k) (snapshots st) = Inr None \<Longrightarrow>
           P (snapshots st @ [\<lparr>restorer = r, fixture = fx, args = as, data = d\<rparr>])"
  shows "P (snapshots (snd (loadFixture takeSnapshot fx as st)))"
  using assms
  by (simp add: loadFixture_def loadFixture_hit_def loadFixture_miss_def
      split: sum.splits option.splits prod.splits)


lemma keyed_new:
  "name fx \<noteq> [] \<Longrightarrow> cacheKeyOf (name fx) as = Inr k \<Longrightarrow>
   keyed \<lparr>restorer = r, fixture = fx, args = as, data = d\<rparr>"
  by (simp add: keyed_def)

lemma wellFormed_loadFixture:
  "wellFormed (snapshots st) \<Longrightarrow> wellFormed (snapshots (snd (loadFixture takeSnapshot fx as st)))"
  by (rule snapshots_after_loadFixture)
     (simp_all add: wellFormed_def atMostOnePerKey_filter atMostOnePerKey_snoc keyed_new
        list_all_iff)

lemma wellFormed_empty: "wellFormed []"
  by (simp add: wellFormed_def atMostOnePerKey_def)

lemma wellFormed_clearSnapshots: "wellFormed (snapshots (clearSnapshots st))"
  by (simp add: wellFormed_empty clearSnapshots_def)


text \<open>Every cache that a session reaches is well formed.\<close>

lemma wellFormed_perform: "wellFormed (snapshots st) \<Longrightarrow> wellFormed (snapshots (perform st x))"
  by (cases x) (simp_all add: wellFormed_loadFixture wellFormed_clearSnapshots)

lemma wellFormed_foldl:
  "wellFormed (snapshots st) \<Longrightarrow> wellFormed (snapshots (foldl perform st xs))"
  by (induction xs arbitrary: st) (simp_all add: wellFormed_perform)

lemma wellFormed_session: "wellFormed (snapshots (session w xs))"
  unfolding session_def by (rule wellFormed_foldl) (simp add: wellFormed_empty)

lemma atMostOnePerKey_session: "atMostOnePerKey (snapshots (session w xs))"
  using wellFormed_session [of w xs] by (simp add: wellFormed_def)

section \<open>The example states\<close>

lemma json_100_200:
  "JSON_stringify (JArray [JNum 100]) = Inr (Some ''[100]'')"
  "JSON_stringify (JArray [JNum 200]) = Inr (Some ''[200]'')"
  by (simp_all add: JSON_stringify_def numberToString_def showNat.simps hexDigit_def)



lemma key_null: "cacheKeyOf (name deploy) [JFunction ''helper''] = cacheKeyOf (name deploy) [JNull]"
  by (simp add: cacheKeyOf_def JSON_stringify_def)

lemma first_null:
  "loadFixture recordingTakeSnapshot deploy [JNull] emptyState =
   (Inr (JArray [JNull]),
    \<lparr>snapshots = [\<lparr>restorer = recordingRestorer 1, fixture = deploy, args = [JNull],
                    data = JArray [JNull]\<rparr>],
     network = [Ran ''deploy'' [JNull], Snap 1]\<rparr>)"
proof -
  obtain k where k: "cacheKeyOf (name deploy) [JNull] = Inr k"
    by (simp add: cacheKeyOf_eq JSON_stringify_def)
  have n: "name deploy \<noteq> []" by (simp add: deploy_def)
  have "loadFixture recordingTakeSnapshot deploy [JNull] emptyState =
      loadFixture_miss recordingTakeSnapshot deploy [JNull] emptyState"
    using n k by (simp add: loadFixture_def emptyState_def)
  then show ?thesis
    by (simp add: loadFixture_miss_def emptyState_def recordingTakeSnapshot_def deploy_def)
qed

section \<open>Anonymous fixtures\<close>

text \<open>
  C3. A call whose fixture has the empty name fails with
  \<open>FixtureAnonymousFunctionError\<close> at once: whatever the fixture's body, the argument
  list, the cache and the network are, the result is that error and the state is the one
  the call started in, so neither the fixture nor the network was touched.
\<close>

theorem anonymous_fixture_rejected:
  "name fx = [] \<Longrightarrow> loadFixture takeSnapshot fx as st = (Inl FixtureAnonymousFunctionError, st)"
  by (simp add: loadFixture_def)

theorem anonymous_fixture_rejected_witness:
  "name anonymous = [] \<and>
   loadFixture recordingTakeSnapshot anonymous [JNum 1] emptyState =
     (Inl FixtureAnonymousFunctionError, emptyState)"
  using anonymous_fixture_rejected [of anonymous recordingTakeSnapshot "[JNum 1]" emptyState]
  by (simp add: anonymous_def)

section \<open>The miss path\<close>

text \<open>
  C5. When no record matches the key of a named fixture and its arguments, the call runs
  the fixture on the current network; when that resolves with \<open>d\<close>, it takes a snapshot
  of the network the fixture left, and when that resolves with \<open>r\<close>, the record
  \<open>{restorer = r, fixture, args, data = d}\<close> is the new last element of the cache and
  the call returns \<open>d\<close>.
\<close>

theorem miss_path_runs_and_records:
  assumes "name fx \<noteq> []" "cacheKeyOf (name fx) as = Inr k"
    "find_first (matchesKey k) (snapshots st) = Inr None"
    "call fx as (network st) = (Inr d, w1)" "takeSnapshot w1 = (Inr r, w2)"
  shows "loadFixture takeSnapshot fx as st =
           (Inr d,
            \<lparr>snapshots = snapshots st @ [\<lparr>restorer = r, fixture = fx, args = as, data = d\<rparr>],
             network = w2\<rparr>)"
  using assms by (simp add: loadFixture_on_miss loadFixture_miss_def)

theorem miss_path_runs_and_records_witness:
  "loadFixture recordingTakeSnapshot deploy [JNum 100] emptyState =
     (Inr (JArray [JNum 100]),
      \<lparr>snapshots = [\<lparr>restorer = recordingRestorer 1, fixture = deploy, args = [JNum 100],
                      data = JArray [JNum 100]\<rparr>],
       network = [Ran ''deploy'' [JNum 100], Snap 1]\<rparr>)"
proof -
  obtain k where k: "cacheKeyOf (name deploy) [JNum 100] = Inr k"
    by (simp add: cacheKeyOf_eq JSON_stringify_def)
  have n: "name deploy \<noteq> []" by (simp add: deploy_def)
  have f: "find_first (matchesKey k) (snapshots emptyState) = Inr None"
    by (simp add: emptyState_def)
  have c: "call deploy [JNum 100] (network emptyState) =
             (Inr (JArray [JNum 100]), [Ran ''deploy'' [JNum 100]])"
    by (simp add: deploy_def emptyState_def)
  have t: "recordingTakeSnapshot [Ran ''deploy'' [JNum 100]] =
             (Inr (recordingRestorer 1), [Ran ''deploy'' [JNum 100], Snap 1])"
    by (simp add: recordingTakeSnapshot_def)
  show ?thesis
    using miss_path_runs_and_records
      [where takeSnapshot = recordingTakeSnapshot and st = emptyState, OF n k f c t]
    by (simp add: emptyState_def)
qed

section \<open>A second call is served from the cache\<close>



section \<open>Other arguments, another record\<close>



section \<open>Pruning after a restore\<close>



section \<open>A failing restore\<close>

text \<open>
  C4. On a hit whose restore rejects with \<open>e\<close>, the call rejects with
  \<open>FixtureSnapshotError\<close> wrapping \<open>InvalidSnapshotError\<close> when \<open>e\<close> is that error,
  and with \<open>e\<close> itself otherwise. The network is the one that single restore left:
  nothing is tried again, and neither the fixture nor \<open>takeSnapshot\<close> is used.
\<close>

theorem restore_failure_surfaces:
  assumes "name fx \<noteq> []" "cacheKeyOf (name fx) as = Inr k"
    "find_first (matchesKey k) (snapshots st) = Inr (Some snapshot)"
    "restore (restorer snapshot) (network st) = (Inl e, w)"
  shows "loadFixture takeSnapshot fx as st =
           (Inl (if e = InvalidSnapshotError then FixtureSnapshotError InvalidSnapshotError else e),
            st\<lparr>network := w\<rparr>)"
  using assms by (cases e) (simp_all add: loadFixture_on_hit loadFixture_hit_def)

theorem restore_failure_surfaces_witness:
  "loadFixture recordingTakeSnapshot deploy [] staleState =
     (Inl (FixtureSnapshotError InvalidSnapshotError), staleState) \<and>
   loadFixture recordingTakeSnapshot deploy [] brokenState =
     (Inl (Thrown ''timeout''), brokenState)"
proof -
  obtain k where k: "cacheKeyOf (name deploy) [] = Inr k"
    by (simp add: cacheKeyOf_eq JSON_stringify_def)
  have n: "name deploy \<noteq> []" by (simp add: deploy_def)
  have f1: "find_first (matchesKey k) (snapshots staleState) = Inr (Some (hd (snapshots staleState)))"
    using k by (simp add: staleState_def matchesKey_def)
  have r1: "restore (restorer (hd (snapshots staleState))) (network staleState) =
              (Inl InvalidSnapshotError, network staleState)"
    by (simp add: staleState_def staleRestorer_def)
  have f2: "find_first (matchesKey k) (snapshots brokenState) = Inr (Some (hd (snapshots brokenState)))"
    using k by (simp add: brokenState_def matchesKey_def)
  have r2: "restore (restorer (hd (snapshots brokenState))) (network brokenState) =
              (Inl (Thrown ''timeout''), network brokenState)"
    by (simp add: brokenState_def brokenRestorer_def)
  show ?thesis
    using restore_failure_surfaces [where takeSnapshot = recordingTakeSnapshot, OF n k f1 r1]
      restore_failure_surfaces [where takeSnapshot = recordingTakeSnapshot, OF n k f2 r2]
    by simp
qed

text \<open>
  C10. On a hit whose restore rejects, with whatever error, the cache after the call is
  the cache before it: nothing pruned, nothing added, the record that failed still there.
\<close>

theorem restore_failure_keeps_cache:
  assumes "name fx \<noteq> []" "cacheKeyOf (name fx) as = Inr k"
    "find_first (matchesKey k) (snapshots st) = Inr (Some snapshot)"
    "restore (restorer snapshot) (network st) = (Inl e, w)"
  shows "snapshots (snd (loadFixture takeSnapshot fx as st)) = snapshots st"
  using assms by (simp add: loadFixture_on_hit loadFixture_hit_def)

theorem restore_failure_keeps_cache_witness:
  "snapshots (snd (loadFixture recordingTakeSnapshot deploy [] staleState)) =
     [\<lparr>restorer = staleRestorer 1, fixture = deploy, args = [], data = JArray []\<rparr>]"
proof -
  obtain k where k: "cacheKeyOf (name deploy) [] = Inr k"
    by (simp add: cacheKeyOf_eq JSON_stringify_def)
  have n: "name deploy \<noteq> []" by (simp add: deploy_def)
  have f1: "find_first (matchesKey k) (snapshots staleState) = Inr (Some (hd (snapshots staleState)))"
    using k by (simp add: staleState_def matchesKey_def)
  have r1: "restore (restorer (hd (snapshots staleState))) (network staleState) =
              (Inl InvalidSnapshotError, network staleState)"
    by (simp add: staleState_def staleRestorer_def)
  show ?thesis
    using restore_failure_keeps_cache [where takeSnapshot = recordingTakeSnapshot, OF n k f1 r1]
    by (simp add: staleState_def)
qed

section \<open>One record per key\<close>



section \<open>clearSnapshots\<close>

text \<open>
  C7. \<open>clearSnapshots\<close> empties the cache and leaves the network alone. A call of
  \<open>loadFixture\<close> right after it, for a named fixture with arguments that have a key,
  is the miss branch on the empty cache, whatever the cache held before: the fixture runs.
\<close>

theorem clearSnapshots_forces_rerun:
  "snapshots (clearSnapshots st) = [] \<and> network (clearSnapshots st) = network st \<and>
   (name fx \<noteq> [] \<and> \<not> isl (cacheKeyOf (name fx) as) \<longrightarrow>
      loadFixture takeSnapshot fx as (clearSnapshots st) =
        loadFixture_miss takeSnapshot fx as \<lparr>snapshots = [], network = network st\<rparr>)"
  by (cases st; cases "cacheKeyOf (name fx) as") (simp_all add: clearSnapshots_def loadFixture_def)

theorem clearSnapshots_forces_rerun_witness:
  "loadFixture recordingTakeSnapshot deploy [JNum 100] (clearSnapshots loaded100) =
     (Inr (JArray [JNum 100]),
      \<lparr>snapshots = [\<lparr>restorer = recordingRestorer 3, fixture = deploy, args = [JNum 100],
                      data = JArray [JNum 100]\<rparr>],
       network = [Ran ''deploy'' [JNum 100], Snap 1, Ran ''deploy'' [JNum 100], Snap 3]\<rparr>)"
proof -
  have n: "name deploy \<noteq> []" by (simp add: deploy_def)
  have k: "\<not> isl (cacheKeyOf (name deploy) [JNum 100])"
    by (simp add: cacheKeyOf_eq json_100_200)
  show ?thesis
    using clearSnapshots_forces_rerun [of loaded100 deploy "[JNum 100]" recordingTakeSnapshot] n k
    by (simp add: loadFixture_miss_def clearSnapshots_def loaded100_def deploy_def
        recordingTakeSnapshot_def)
qed

section \<open>Arguments without a faithful serialization\<close>

text \<open>
  C9, as amended. An argument list that holds a BigInt or a reference cycle, at any
  depth, makes the call of a named fixture fail with the \<open>TypeError\<close> of
  \<^verbatim>\<open>JSON.stringify\<close> before the cache is read: the state is unchanged and the fixture
  has not run. A function or \<^verbatim>\<open>undefined\<close> in the argument list is not rejected: the
  key is the one of the list with \<^verbatim>\<open>null\<close> in its place.
\<close>

theorem unserialisable_args_fail_fast:
  "(name fx \<noteq> [] \<and> list_ex throwsInJSON as \<longrightarrow>
      loadFixture takeSnapshot fx as st = (Inl TypeError, st)) \<and>
   cacheKeyOf n (xs @ JFunction f # ys) = cacheKeyOf n (xs @ JNull # ys) \<and>
   cacheKeyOf n (xs @ JUndefined # ys) = cacheKeyOf n (xs @ JNull # ys)"
  using cacheKeyOf_throws [of "name fx" as TypeError]
  by (auto simp: loadFixture_def cacheKeyOf_as_null)

theorem unserialisable_args_fail_fast_witness:
  "loadFixture recordingTakeSnapshot deploy [JNum 100, JBigInt 7] loaded100 =
     (Inl TypeError, loaded100) \<and>
   loadFixture recordingTakeSnapshot deploy [JObject [(''self'', JCycle)]] loaded100 =
     (Inl TypeError, loaded100)"
proof -
  have n: "name deploy \<noteq> []" by (simp add: deploy_def)
  have b: "list_ex throwsInJSON [JNum 100, JBigInt 7]" by simp
  have c: "list_ex throwsInJSON [JObject [(''self'', JCycle)]]" by simp
  show ?thesis
    using unserialisable_args_fail_fast
        [of deploy "[JNum 100, JBigInt 7]" recordingTakeSnapshot loaded100]
      unserialisable_args_fail_fast
        [of deploy "[JObject [(''self'', JCycle)]]" recordingTakeSnapshot loaded100]
      n b c
    by blast
qed

text \<open>
  C9 as stated fails for a function: \<^verbatim>\<open>JSON.stringify\<close> writes it as \<^verbatim>\<open>null\<close>, so
  after \<^verbatim>\<open>loadFixture(deploy, [null])\<close> the call \<^verbatim>\<open>loadFixture(deploy, [helper])\<close>
  does not fail: it restores the snapshot and returns the result computed for \<^verbatim>\<open>[null]\<close>.
\<close>

theorem function_argument_keyed_as_null:
  "loadFixture recordingTakeSnapshot deploy [JFunction ''helper'']
     (snd (loadFixture recordingTakeSnapshot deploy [JNull] emptyState)) =
   (Inr (JArray [JNull]),
    \<lparr>snapshots = [\<lparr>restorer = recordingRestorer 1, fixture = deploy, args = [JNull],
                    data = JArray [JNull]\<rparr>],
     network = [Ran ''deploy'' [JNull], Snap 1, Reverted 1]\<rparr>)"
proof -
  obtain k where k: "cacheKeyOf (name deploy) [JNull] = Inr k"
    by (simp add: cacheKeyOf_eq JSON_stringify_def)
  then have k': "cacheKeyOf (name deploy) [JFunction ''helper''] = Inr k"
    by (simp add: key_null)
  have n: "name deploy \<noteq> []" by (simp add: deploy_def)
  define cached :: "(event list, jsval) Snapshot" where
    "cached = \<lparr>restorer = recordingRestorer 1, fixture = deploy, args = [JNull],
                data = JArray [JNull]\<rparr>"
  have m: "matchesKey k cached = Inr True"
    using k by (simp add: matchesKey_def cached_def)
  have "loadFixture recordingTakeSnapshot deploy [JFunction ''helper'']
      \<lparr>snapshots = [cached], network = [Ran ''deploy'' [JNull], Snap 1]\<rparr> =
    loadFixture_hit cached \<lparr>snapshots = [cached], network = [Ran ''deploy'' [JNull], Snap 1]\<rparr>"
    using n k' m by (simp add: loadFixture_def)
  also have "\<dots> = (Inr (JArray [JNull]),
      \<lparr>snapshots = [cached], network = [Ran ''deploy'' [JNull], Snap 1, Reverted 1]\<rparr>)"
    by (simp add: loadFixture_hit_def cached_def recordingRestorer_def)
  finally show ?thesis by (simp add: first_null cached_def)
qed

end
